theory Spec2Isabelle
  imports Main "HOL-Library.Word" "HOL-Library.Sublist"
begin

section \<open>Go values used by \<open>fwprovider/nodes/storage_helpers.go\<close>\<close>

text \<open>
  A Go \<open>string\<close> and a \<open>[]byte\<close> are byte sequences: \<open>string\<close> (a list of 8-bit
  \<open>char\<close>s). A \<open>[]byte\<close> that may be \<open>nil\<close> is a \<open>string option\<close>: \<open>None\<close> is
  the nil slice, \<open>Some []\<close> the empty slice that is not nil. \<open>int64\<close> and \<open>uint64\<close> are
  64-bit words; \<open>sint\<close> reads the signed value.
\<close>

type_synonym int64 = "64 word"
type_synonym uint64 = "64 word"

subsection \<open>\<open>strings.Contains\<close>\<close>

definition HasPrefix :: "string \<Rightarrow> string \<Rightarrow> bool" where
  "HasPrefix s pre = (length pre \<le> length s \<and> take (length pre) s = pre)"

text \<open>\<open>strings.Contains(s, substr)\<close>: \<open>substr\<close> starts at some index of \<open>s\<close>.\<close>

fun Contains :: "string \<Rightarrow> string \<Rightarrow> bool" where
  "Contains [] substr = (substr = [])"
| "Contains (c # s) substr = (HasPrefix (c # s) substr \<or> Contains s substr)"

subsection \<open>\<open>fmt.Sprintf\<close> with the verb \<open>%d\<close>\<close>

definition digit :: "nat \<Rightarrow> char" where
  "digit d = char_of (48 + d)"

function FormatUint :: "nat \<Rightarrow> string" where
  "FormatUint n = (if n < 10 then [digit n] else FormatUint (n div 10) @ [digit (n mod 10)])"
  by pat_completeness auto
termination
  by (relation "measure (\<lambda>n. n)") auto

declare FormatUint.simps [simp del]

text \<open>The decimal text of a signed integer, as \<open>%d\<close> prints an \<open>int64\<close>.\<close>

definition FormatInt :: "int \<Rightarrow> string" where
  "FormatInt i = (if i < 0 then CHR ''-'' # FormatUint (nat (- i)) else FormatUint (nat i))"

subsection \<open>\<open>strconv.ParseInt(s, 10, 64)\<close>\<close>

text \<open>
  The standard library's parser, specialised to base 10 and 64 bits, with its loop over
  the bytes of the text and its overflow checks on \<open>uint64\<close>. In base 10 a byte that is
  not a decimal digit is a syntax error (a letter is a digit of value 10 or more, which
  the base excludes; an underscore is accepted in base 0 only).
\<close>

datatype num_err = ErrSyntax | ErrRange

record NumError =
  Func :: string
  Num :: string
  Err :: num_err

definition syntaxError :: "string \<Rightarrow> string \<Rightarrow> NumError" where
  "syntaxError fn str = \<lparr>Func = fn, Num = str, Err = ErrSyntax\<rparr>"

definition rangeError :: "string \<Rightarrow> string \<Rightarrow> NumError" where
  "rangeError fn str = \<lparr>Func = fn, Num = str, Err = ErrRange\<rparr>"

text \<open>
  \<open>(*NumError).Error()\<close>. The argument \<open>Quote\<close> stands for \<open>strconv.Quote\<close>, whose
  escaping of unprintable runes follows the Unicode tables of the standard library.
\<close>

definition num_err_text :: "num_err \<Rightarrow> string" where
  "num_err_text e = (case e of ErrSyntax \<Rightarrow> ''invalid syntax'' | ErrRange \<Rightarrow> ''value out of range'')"

definition NumError_Error :: "(string \<Rightarrow> string) \<Rightarrow> NumError \<Rightarrow> string" where
  "NumError_Error Quote e =
     ''strconv.'' @ Func e @ '': parsing '' @ Quote (Num e) @ '': '' @ num_err_text (Err e)"

definition maxUint64 :: uint64 where
  "maxUint64 = 18446744073709551615"

text \<open>The smallest number such that \<open>cutoff * 10 > maxUint64\<close>: \<open>maxUint64 / 10 + 1\<close>.\<close>

definition cutoff10 :: uint64 where
  "cutoff10 = 1844674407370955162"

fun ParseUint_loop :: "string \<Rightarrow> string \<Rightarrow> uint64 \<Rightarrow> uint64 \<times> NumError option" where
  "ParseUint_loop s0 [] n = (n, None)"
| "ParseUint_loop s0 (c # cs) n =
     (if 48 \<le> (of_char c :: nat) \<and> (of_char c :: nat) \<le> 57 then
        (let d = (of_nat ((of_char c :: nat) - 48) :: uint64) in
         if cutoff10 \<le> n then (maxUint64, Some (rangeError ''ParseUint'' s0))
         else (let n' = n * 10; n1 = n' + d in
               if n1 < n' \<or> maxUint64 < n1 then (maxUint64, Some (rangeError ''ParseUint'' s0))
               else ParseUint_loop s0 cs n1))
      else (0, Some (syntaxError ''ParseUint'' s0)))"

definition ParseUint :: "string \<Rightarrow> uint64 \<times> NumError option" where
  "ParseUint s = (if s = [] then (0, Some (syntaxError ''ParseUint'' s)) else ParseUint_loop s s 0)"

definition ParseInt :: "string \<Rightarrow> int64 \<times> NumError option" where
  "ParseInt s0 =
     (case s0 of
        [] \<Rightarrow> (0, Some (syntaxError ''ParseInt'' s0))
      | c # rest \<Rightarrow>
          (let neg = (c = CHR ''-'');
               s = (if c = CHR ''+'' \<or> c = CHR ''-'' then rest else s0);
               (un, err) = ParseUint s;
               cutoff = (9223372036854775808 :: uint64)
           in case (case err of None \<Rightarrow> None
                    | Some e \<Rightarrow> if Err e \<noteq> ErrRange then Some e else None) of
                Some e \<Rightarrow> (0, Some (e\<lparr>Func := ''ParseInt'', Num := s0\<rparr>))
              | None \<Rightarrow>
                 if \<not> neg \<and> cutoff \<le> un then (cutoff - 1, Some (rangeError ''ParseInt'' s0))
                 else if neg \<and> cutoff < un then (- cutoff, Some (rangeError ''ParseInt'' s0))
                 else (if neg then - un else un, None)))"

subsection \<open>Go errors\<close>

text \<open>
  An \<open>error\<close> value with its text and its chain of wrapped errors: a value of the
  comparable string type \<open>api.Error\<close>, an error made by \<open>errors.New\<close> or by
  \<open>fmt.Errorf\<close> without \<open>%w\<close>, and an error that wraps another one (\<open>fmt.Errorf\<close> with
  \<open>%w\<close>: its own text, and the error \<open>Unwrap\<close> returns). A nil error is \<open>None\<close> of
  \<open>go_error option\<close>. Errors with an \<open>Is\<close> method of their own and errors that wrap
  several errors at once are left out.
\<close>

datatype go_error =
    ApiError string
  | ErrorString string
  | WrapError string go_error

fun Error :: "go_error \<Rightarrow> string" where
  "Error (ApiError s) = s"
| "Error (ErrorString s) = s"
| "Error (WrapError s inner) = s"

text \<open>\<open>errors.Is(err, target)\<close>: \<open>err\<close> or an error in its chain equals \<open>target\<close>.\<close>

fun errors_Is :: "go_error \<Rightarrow> go_error \<Rightarrow> bool" where
  "errors_Is (WrapError s inner) target =
     (WrapError s inner = target \<or> errors_Is inner target)"
| "errors_Is err target = (err = target)"

section \<open>Diagnostics and responses of the plugin framework\<close>

text \<open>
  \<open>diag.ErrorDiagnostic\<close> and \<open>diag.WarningDiagnostic\<close>, each with a summary and a
  detail. The collection \<open>diag.Diagnostics\<close> is a slice; its \<open>Append\<close>, through which
  \<open>AddError\<close> and \<open>AddWarning\<close> go, skips a diagnostic that the collection already
  \<open>Contains\<close> (one of the same kind with equal summary and detail). Diagnostics bound
  to an attribute path, which the helpers never make, are left out.
\<close>

datatype Diagnostic =
    ErrorDiagnostic (Summary: string) (Detail: string)
  | WarningDiagnostic (Summary: string) (Detail: string)

text \<open>\<open>diag.Severity\<close> and the method \<open>Severity()\<close> of the two kinds of diagnostic.\<close>

datatype diag_Severity = SeverityInvalid | SeverityError | SeverityWarning

fun Severity :: "Diagnostic \<Rightarrow> diag_Severity" where
  "Severity (ErrorDiagnostic summary detail) = SeverityError"
| "Severity (WarningDiagnostic summary detail) = SeverityWarning"

definition Append :: "Diagnostic list \<Rightarrow> Diagnostic \<Rightarrow> Diagnostic list" where
  "Append diags d = (if d \<in> set diags then diags else diags @ [d])"

definition AddError :: "Diagnostic list \<Rightarrow> string \<Rightarrow> string \<Rightarrow> Diagnostic list" where
  "AddError diags summary detail = Append diags (ErrorDiagnostic summary detail)"

definition AddWarning :: "Diagnostic list \<Rightarrow> string \<Rightarrow> string \<Rightarrow> Diagnostic list" where
  "AddWarning diags summary detail = Append diags (WarningDiagnostic summary detail)"

text \<open>\<open>types.Int64\<close>: null, unknown, or a known value.\<close>

datatype Int64 = Int64Null | Int64Unknown | Int64Value int64

text \<open>
  The responses the three helpers write to. Every response carries the diagnostics;
  \<open>planmodifier.Int64Response\<close> adds the plan value and the replacement flag,
  \<open>resource.ReadResponse\<close> the state, where \<open>None\<close> is the state after
  \<open>State.RemoveResource\<close> (the null value). \<open>resource.DeleteResponse\<close> is used for
  its diagnostics only; its field \<open>State\<close> is \<open>DeleteState\<close> here, apart from the one
  of the read response.
\<close>

record Response =
  Diagnostics :: "Diagnostic list"

record Int64Response = Response +
  PlanValue :: Int64
  RequiresReplace :: bool

record 's ReadResponse = Response +
  State :: "'s option"

record 's DeleteResponse = Response +
  DeleteState :: "'s option"

definition RemoveResource :: "'s ReadResponse \<Rightarrow> 's ReadResponse" where
  "RemoveResource resp = resp\<lparr>State := None\<rparr>"

section \<open>The helpers\<close>

definition size_error_summary :: "string \<Rightarrow> string" where
  "size_error_summary resourceKind =
     ''Unable to convert original state '' @ resourceKind @ '' size to int64''"

definition size_error_detail :: "string \<Rightarrow> string" where
  "size_error_detail errText =
     ''Unexpected error in parsing string to int64, key original_state_size. '' @
     ''Please retry the operation or report this issue to the provider developers.'' @
     [CHR 0x0A, CHR 0x0A] @
     ''Error: '' @ errText"

definition size_warning_summary :: "string \<Rightarrow> string" where
  "size_warning_summary resourceKind =
     ''The '' @ resourceKind @ '' size in datastore has changed outside of terraform.''"

definition size_warning_detail :: "int64 \<Rightarrow> int64 \<Rightarrow> string" where
  "size_warning_detail originalStateSize stateSize =
     ''Previous size: '' @ FormatInt (sint originalStateSize) @
     '' saved in state does not match current size from datastore: '' @
     FormatInt (sint stateSize) @ ''. '' @
     ''You can disable this behaviour by using overwrite=false''"

definition applySizeRequiresReplace ::
  "(string \<Rightarrow> string) \<Rightarrow> Int64Response \<Rightarrow> string option \<Rightarrow> int64 \<Rightarrow> bool \<Rightarrow> string
     \<Rightarrow> Int64Response" where
  "applySizeRequiresReplace Quote resp originalStateSizeBytes stateSize planOverwrite resourceKind =
     (case originalStateSizeBytes of
        None \<Rightarrow> resp
      | Some bytes \<Rightarrow>
          (case ParseInt bytes of
             (originalStateSize, Some err) \<Rightarrow>
               resp\<lparr>Diagnostics :=
                 AddError (Diagnostics resp)
                   (size_error_summary resourceKind)
                   (size_error_detail (NumError_Error Quote err))\<rparr>
           | (originalStateSize, None) \<Rightarrow>
               if stateSize \<noteq> originalStateSize \<and> planOverwrite then
                 resp\<lparr>RequiresReplace := True,
                      PlanValue := Int64Value originalStateSize,
                      Diagnostics :=
                        AddWarning (Diagnostics resp)
                          (size_warning_summary resourceKind)
                          (size_warning_detail originalStateSize stateSize)\<rparr>
               else resp))"

text \<open>
  \<open>handleReadResult\<close> returns the flag and the response it has written to. The context
  argument of the source is passed on to \<open>RemoveResource\<close> only.
\<close>

definition handleReadResult ::
  "'s ReadResponse \<Rightarrow> go_error option \<Rightarrow> string \<Rightarrow> bool \<times> 's ReadResponse" where
  "handleReadResult resp err notExistMessage =
     (case err of
        Some e \<Rightarrow>
          if Contains (Error e) ''failed to authenticate'' then
            (True, resp\<lparr>Diagnostics := AddError (Diagnostics resp) ''Failed to authenticate'' (Error e)\<rparr>)
          else
            (True, RemoveResource
                     (resp\<lparr>Diagnostics := AddWarning (Diagnostics resp) notExistMessage (Error e)\<rparr>))
      | None \<Rightarrow> (False, resp))"

definition delete_warning_summary :: "string \<Rightarrow> string" where
  "delete_warning_summary itemKind = ''Datastore '' @ itemKind @ '' does not exist''"

definition delete_error_summary :: "string \<Rightarrow> string" where
  "delete_error_summary itemKind = ''Error deleting datastore '' @ itemKind"

definition delete_warning_detail :: "string \<Rightarrow> string \<Rightarrow> string" where
  "delete_warning_detail itemKind ident =
     ''Could not delete datastore '' @ itemKind @ '' '' @ [CHR 0x27] @ ident @ [CHR 0x27] @
     '', it does not exist or has been deleted outside of Terraform.''"

definition delete_error_detail :: "string \<Rightarrow> string \<Rightarrow> string \<Rightarrow> string" where
  "delete_error_detail itemKind ident errText =
     ''Could not delete datastore '' @ itemKind @ '' '' @ [CHR 0x27] @ ident @ [CHR 0x27] @
     '', unexpected error: '' @ errText"

text \<open>
  The sentinel \<open>api.ErrResourceDoesNotExist\<close> is declared in the package
  \<open>proxmox/api\<close>; the model takes it as its first argument.
\<close>

definition handleDatastoreDeleteError ::
  "go_error \<Rightarrow> 's DeleteResponse \<Rightarrow> go_error option \<Rightarrow> string \<Rightarrow> string \<Rightarrow> 's DeleteResponse" where
  "handleDatastoreDeleteError ErrResourceDoesNotExist resp err ident itemKind =
     (case err of
        None \<Rightarrow> resp
      | Some e \<Rightarrow>
          if errors_Is e ErrResourceDoesNotExist then resp
          else if Contains (Error e) ''unable to parse'' then
            resp\<lparr>Diagnostics :=
              AddWarning (Diagnostics resp)
                (delete_warning_summary itemKind)
                (delete_warning_detail itemKind ident)\<rparr>
          else
            resp\<lparr>Diagnostics :=
              AddError (Diagnostics resp)
                (delete_error_summary itemKind)
                (delete_error_detail itemKind ident (Error e))\<rparr>)"

section \<open>Properties of the library functions\<close>

text \<open>\<open>Contains\<close> holds exactly when the text splits around the substring.\<close>

lemma HasPrefix_iff: "HasPrefix s pre \<longleftrightarrow> prefix pre s"
  unfolding HasPrefix_def prefix_def
proof
  assume h: "length pre \<le> length s \<and> take (length pre) s = pre"
  have "s = take (length pre) s @ drop (length pre) s" by simp
  with h have "s = pre @ drop (length pre) s" by simp
  then show "\<exists>zs. s = pre @ zs" ..
next
  assume "\<exists>zs. s = pre @ zs"
  then show "length pre \<le> length s \<and> take (length pre) s = pre" by auto
qed

lemma Contains_sublist: "Contains s sub \<longleftrightarrow> sublist sub s"
  by (induction s) (simp_all add: sublist_Cons_right HasPrefix_iff)

lemma Contains_iff: "Contains s sub \<longleftrightarrow> (\<exists>p q. s = p @ sub @ q)"
  by (simp add: Contains_sublist sublist_def)

lemma Contains_here: "Contains (sub @ q) sub"
  by (simp add: Contains_sublist)

lemma Contains_prepend: "Contains t sub \<Longrightarrow> Contains (p @ t) sub"
  unfolding Contains_iff by (metis append.assoc)

lemma Contains_extend: "Contains t sub \<Longrightarrow> Contains (t @ q) sub"
  unfolding Contains_iff by (metis append.assoc)

lemma Contains_self: "Contains s s"
  by (simp add: Contains_sublist)

text \<open>The collection of diagnostics: appending a diagnostic it does not hold yet adds it at the end.\<close>

lemma Append_fresh: "d \<notin> set diags \<Longrightarrow> Append diags d = diags @ [d]"
  by (simp add: Append_def)

lemma Append_present: "d \<in> set diags \<Longrightarrow> Append diags d = diags"
  by (simp add: Append_def)

lemma Append_Nil: "Append [] d = [d]"
  by (simp add: Append_def)

lemma Append_member: "d \<in> set (Append diags d)"
  by (simp add: Append_def)

lemma Append_idem: "Append (Append diags d) d = Append diags d"
  by (simp add: Append_def)

lemma Append_new: "d \<in> set (Append diags x) \<Longrightarrow> d \<notin> set diags \<Longrightarrow> d = x"
  by (auto simp: Append_def split: if_splits)

text \<open>The parser on some texts.\<close>

lemma ParseInt_empty: "ParseInt [] = (0, Some (syntaxError ''ParseInt'' []))"
  by (simp add: ParseInt_def)

lemma ParseInt_examples:
  "ParseInt ''100'' = (100, None)"
  "ParseInt ''+7'' = (7, None)"
  "ParseInt ''-5'' = (- 5, None)"
  "ParseInt ''-9223372036854775808'' = (- 9223372036854775808, None)"
  "ParseInt ''9223372036854775807'' = (9223372036854775807, None)"
  "ParseInt ''9223372036854775808'' = (9223372036854775807, Some (rangeError ''ParseInt'' ''9223372036854775808''))"
  "ParseInt ''-'' = (0, Some (syntaxError ''ParseInt'' ''-''))"
  "ParseInt ''12a'' = (0, Some (syntaxError ''ParseInt'' ''12a''))"
  "ParseInt ''1_000'' = (0, Some (syntaxError ''ParseInt'' ''1_000''))"
  "ParseInt '' 100'' = (0, Some (syntaxError ''ParseInt'' '' 100''))"
  by code_simp+

text \<open>The parser reads back what \<open>%d\<close> prints, for every \<open>int64\<close>.\<close>

lemma of_char_digit: "d < 10 \<Longrightarrow> (of_char (digit d) :: nat) = 48 + d"
  by (simp add: digit_def)

lemma ParseUint_loop_append:
  "ParseUint_loop s0 (xs @ ys) n =
     (case ParseUint_loop s0 xs n of
        (m, None) \<Rightarrow> ParseUint_loop s0 ys m
      | (m, Some e) \<Rightarrow> (m, Some e))"
  by (induction xs arbitrary: n) (simp_all add: Let_def)

lemma unat_of_nat64: "a < 2 ^ 64 \<Longrightarrow> unat (of_nat a :: uint64) = a"
  by (simp add: unat_of_nat)

lemma ParseUint_loop_digit:
  assumes "d < 10" and "10 * a + d < 2 ^ 64"
  shows "ParseUint_loop s0 [digit d] (of_nat a) = (of_nat (10 * a + d), None)"
proof -
  have a: "a < 1844674407370955162" using assms by simp
  have ua: "unat (of_nat a :: uint64) = a"
    using assms by (simp add: unat_of_nat64)
  have c: "\<not> cutoff10 \<le> (of_nat a :: uint64)"
    using a by (simp add: cutoff10_def word_le_nat_alt ua)
  have u10: "unat ((of_nat a :: uint64) * 10) = 10 * a"
    using assms by (simp add: unat_word_ariths ua)
  have u1: "unat ((of_nat a :: uint64) * 10 + of_nat d) = 10 * a + d"
    using assms by (simp add: unat_word_ariths u10 unat_of_nat64)
  have lt: "\<not> ((of_nat a :: uint64) * 10 + of_nat d < of_nat a * 10)"
    by (simp add: word_less_nat_alt u10 u1)
  have mx: "\<not> (maxUint64 < (of_nat a :: uint64) * 10 + of_nat d)"
    using assms by (simp add: word_less_nat_alt u1 maxUint64_def)
  have v: "(of_nat a :: uint64) * 10 + of_nat d = of_nat (10 * a + d)"
    by simp
  show ?thesis
    using assms(1) c lt mx
    by (simp add: of_char_digit Let_def v del: of_nat_add of_nat_mult)
qed


lemma ParseUint_loop_FormatUint:
  "n < 2 ^ 64 \<Longrightarrow> ParseUint_loop s0 (FormatUint n) 0 = (of_nat n, None)"
proof (induction n rule: FormatUint.induct)
  case (1 n)
  show ?case
  proof (cases "n < 10")
    case True
    then have "ParseUint_loop s0 [digit n] (of_nat 0) = (of_nat (10 * 0 + n), None)"
      by (intro ParseUint_loop_digit) simp_all
    with True show ?thesis
      by (simp add: FormatUint.simps [of n])
  next
    case False
    with 1 have ih: "ParseUint_loop s0 (FormatUint (n div 10)) 0 = (of_nat (n div 10), None)"
      by simp
    have "ParseUint_loop s0 [digit (n mod 10)] (of_nat (n div 10))
            = (of_nat (10 * (n div 10) + n mod 10), None)"
      using 1(2) by (intro ParseUint_loop_digit) simp_all
    then have "ParseUint_loop s0 [digit (n mod 10)] (of_nat (n div 10)) = (of_nat n, None)"
      by simp
    with False ih show ?thesis
      by (simp add: FormatUint.simps [of n] ParseUint_loop_append)
  qed
qed

lemma FormatUint_head:
  "\<exists>c cs. FormatUint n = c # cs \<and> c \<noteq> CHR ''+'' \<and> c \<noteq> CHR ''-''"
proof (induction n rule: FormatUint.induct)
  case (1 n)
  show ?case
  proof (cases "n < 10")
    case True
    then have "(of_char (digit n) :: nat) = 48 + n"
      by (rule of_char_digit)
    then have "digit n \<noteq> CHR ''+'' \<and> digit n \<noteq> CHR ''-''"
      by auto
    with True show ?thesis
      by (simp add: FormatUint.simps [of n])
  next
    case False
    with 1 obtain c cs where "FormatUint (n div 10) = c # cs" "c \<noteq> CHR ''+''" "c \<noteq> CHR ''-''"
      by auto
    with False show ?thesis
      by (simp add: FormatUint.simps [of n])
  qed
qed

lemma ParseUint_FormatUint:
  "n < 2 ^ 64 \<Longrightarrow> ParseUint (FormatUint n) = (of_nat n, None)"
  using FormatUint_head [of n] by (auto simp: ParseUint_def ParseUint_loop_FormatUint)

lemma ParseInt_FormatInt: "ParseInt (FormatInt (sint v)) = (v, None)"
proof (cases "sint v < 0")
  case False
  have lt: "sint v < 2 ^ 63" using sint_lt [of v] by simp
  with False have b: "nat (sint v) < 2 ^ 64" by simp
  have eq: "(of_nat (nat (sint v)) :: uint64) = v"
    using False by simp
  have small: "\<not> (9223372036854775808 :: uint64) \<le> v"
  proof
    assume "(9223372036854775808 :: uint64) \<le> v"
    then have "(9223372036854775808 :: nat) \<le> unat v"
      by (simp add: word_le_nat_alt)
    moreover have "unat v = nat (sint v)"
      using eq b by (metis unat_of_nat64)
    ultimately show False using lt by simp
  qed
  obtain c cs where h: "FormatUint (nat (sint v)) = c # cs" "c \<noteq> CHR ''+''" "c \<noteq> CHR ''-''"
    using FormatUint_head by blast
  have "ParseUint (c # cs) = (v, None)"
    using ParseUint_FormatUint [OF b] eq h(1) by simp
  with False h small show ?thesis
    by (simp add: ParseInt_def FormatInt_def)
next
  case True
  have ge: "- (2 ^ 63) \<le> sint v" using sint_ge [of v] by simp
  with True have b: "nat (- sint v) < 2 ^ 64" by simp
  have eq: "(of_nat (nat (- sint v)) :: uint64) = - v"
    using True by simp
  have u: "unat (- v) = nat (- sint v)"
    using eq b by (metis unat_of_nat64)
  have small: "\<not> (9223372036854775808 :: uint64) < - v"
  proof
    assume "(9223372036854775808 :: uint64) < - v"
    then have "(9223372036854775808 :: nat) < unat (- v)"
      by (simp add: word_less_nat_alt)
    with u ge show False by simp
  qed
  have "ParseUint (FormatUint (nat (- sint v))) = (- v, None)"
    using ParseUint_FormatUint [OF b] eq by simp
  with True small show ?thesis
    by (simp add: ParseInt_def FormatInt_def)
qed

section \<open>What the messages cite\<close>

lemma size_warning_detail_cites:
  "Contains (size_warning_detail v s) (FormatInt (sint v))"
  "Contains (size_warning_detail v s) (FormatInt (sint s))"
  "Contains (size_warning_detail v s) ''overwrite=false''"
proof -
  show "Contains (size_warning_detail v s) (FormatInt (sint v))"
    unfolding size_warning_detail_def
    by (rule Contains_prepend) (rule Contains_here)
  show "Contains (size_warning_detail v s) (FormatInt (sint s))"
    unfolding size_warning_detail_def
    by (rule Contains_prepend, rule Contains_prepend, rule Contains_prepend) (rule Contains_here)
  have flag: "Contains ''You can disable this behaviour by using overwrite=false'' ''overwrite=false''"
    by code_simp
  show "Contains (size_warning_detail v s) ''overwrite=false''"
    unfolding size_warning_detail_def
    by (rule Contains_prepend, rule Contains_prepend, rule Contains_prepend,
        rule Contains_prepend, rule Contains_prepend) (rule flag)
qed

lemma size_warning_summary_cites: "Contains (size_warning_summary kind) kind"
  unfolding size_warning_summary_def
  by (rule Contains_prepend) (rule Contains_here)

lemma size_error_cites:
  "Contains (size_error_summary kind) kind"
  "Contains (size_error_detail t) ''original_state_size''"
  "Contains (size_error_detail t) t"
proof -
  show "Contains (size_error_summary kind) kind"
    unfolding size_error_summary_def
    by (rule Contains_prepend) (rule Contains_here)
  have key: "Contains ''Unexpected error in parsing string to int64, key original_state_size. ''
          ''original_state_size''"
    by code_simp
  show "Contains (size_error_detail t) ''original_state_size''"
    unfolding size_error_detail_def by (rule Contains_extend) (rule key)
  show "Contains (size_error_detail t) t"
    unfolding size_error_detail_def
    by (rule Contains_prepend, rule Contains_prepend, rule Contains_prepend, rule Contains_prepend)
       (rule Contains_self)
qed

lemma delete_warning_cites:
  "Contains (delete_warning_summary itemKind) itemKind"
  "Contains (delete_warning_detail itemKind ident) itemKind"
  "Contains (delete_warning_detail itemKind ident) ident"
proof -
  show "Contains (delete_warning_summary itemKind) itemKind"
    unfolding delete_warning_summary_def
    by (rule Contains_prepend) (rule Contains_here)
  show "Contains (delete_warning_detail itemKind ident) itemKind"
    unfolding delete_warning_detail_def
    by (rule Contains_prepend) (rule Contains_here)
  show "Contains (delete_warning_detail itemKind ident) ident"
    unfolding delete_warning_detail_def
    by (rule Contains_prepend, rule Contains_prepend, rule Contains_prepend, rule Contains_prepend)
       (rule Contains_here)
qed

lemma delete_error_cites:
  "Contains (delete_error_summary itemKind) itemKind"
  "Contains (delete_error_detail itemKind ident t) itemKind"
  "Contains (delete_error_detail itemKind ident t) ident"
  "Contains (delete_error_detail itemKind ident t) t"
proof -
  show "Contains (delete_error_summary itemKind) itemKind"
    unfolding delete_error_summary_def
    by (rule Contains_prepend) (rule Contains_self)
  show "Contains (delete_error_detail itemKind ident t) itemKind"
    unfolding delete_error_detail_def
    by (rule Contains_prepend) (rule Contains_here)
  show "Contains (delete_error_detail itemKind ident t) ident"
    unfolding delete_error_detail_def
    by (rule Contains_prepend, rule Contains_prepend, rule Contains_prepend, rule Contains_prepend)
       (rule Contains_here)
  show "Contains (delete_error_detail itemKind ident t) t"
    unfolding delete_error_detail_def
    by (rule Contains_prepend, rule Contains_prepend, rule Contains_prepend, rule Contains_prepend,
        rule Contains_prepend, rule Contains_prepend, rule Contains_prepend)
       (rule Contains_self)
qed

section \<open>The branches of the helpers\<close>

lemma applySizeRequiresReplace_drift:
  assumes "ParseInt bytes = (originalStateSize, None)" and "stateSize \<noteq> originalStateSize"
  shows "applySizeRequiresReplace Quote resp (Some bytes) stateSize True resourceKind =
           resp\<lparr>RequiresReplace := True,
                PlanValue := Int64Value originalStateSize,
                Diagnostics :=
                  AddWarning (Diagnostics resp) (size_warning_summary resourceKind)
                    (size_warning_detail originalStateSize stateSize)\<rparr>"
  using assms by (simp add: applySizeRequiresReplace_def)

lemma applySizeRequiresReplace_parse_error:
  assumes "ParseInt bytes = (v, Some err)"
  shows "applySizeRequiresReplace Quote resp (Some bytes) stateSize planOverwrite resourceKind =
           resp\<lparr>Diagnostics :=
             AddError (Diagnostics resp) (size_error_summary resourceKind)
               (size_error_detail (NumError_Error Quote err))\<rparr>"
  using assms by (simp add: applySizeRequiresReplace_def)

lemma new_error_keeps_plan:
  assumes "d \<in> set (Diagnostics
             (applySizeRequiresReplace Quote resp baseline stateSize planOverwrite resourceKind))"
    and "d \<notin> set (Diagnostics resp)"
    and "Severity d = SeverityError"
  shows "RequiresReplace
           (applySizeRequiresReplace Quote resp baseline stateSize planOverwrite resourceKind)
         = RequiresReplace resp
       \<and> PlanValue
           (applySizeRequiresReplace Quote resp baseline stateSize planOverwrite resourceKind)
         = PlanValue resp"
proof (cases baseline)
  case None
  then show ?thesis by (simp add: applySizeRequiresReplace_def)
next
  case (Some bytes)
  obtain v e where p: "ParseInt bytes = (v, e)" by (cases "ParseInt bytes")
  show ?thesis
  proof (cases e)
    case None
    show ?thesis
    proof (cases "stateSize \<noteq> v \<and> planOverwrite")
      case True
      with assms(1) Some p None
      have "d \<in> set (AddWarning (Diagnostics resp) (size_warning_summary resourceKind)
                       (size_warning_detail v stateSize))"
        by (simp add: applySizeRequiresReplace_def)
      then have "d = WarningDiagnostic (size_warning_summary resourceKind)
                       (size_warning_detail v stateSize)"
        using assms(2) unfolding AddWarning_def by (rule Append_new)
      with assms(3) show ?thesis by simp
    next
      case False
      with Some p None show ?thesis by (auto simp: applySizeRequiresReplace_def)
    qed
  next
    case (Some err)
    with \<open>baseline = Some bytes\<close> p show ?thesis by (simp add: applySizeRequiresReplace_def)
  qed
qed

lemma handleReadResult_nil: "handleReadResult resp None notExistMessage = (False, resp)"
  by (simp add: handleReadResult_def)

lemma handleReadResult_auth:
  "Contains (Error e) ''failed to authenticate'' \<Longrightarrow>
   handleReadResult resp (Some e) notExistMessage =
     (True, resp\<lparr>Diagnostics := AddError (Diagnostics resp) ''Failed to authenticate'' (Error e)\<rparr>)"
  by (simp add: handleReadResult_def)

lemma handleReadResult_other:
  "\<not> Contains (Error e) ''failed to authenticate'' \<Longrightarrow>
   handleReadResult resp (Some e) notExistMessage =
     (True, resp\<lparr>Diagnostics := AddWarning (Diagnostics resp) notExistMessage (Error e),
                 State := None\<rparr>)"
  by (simp add: handleReadResult_def RemoveResource_def)

lemma handleDatastoreDeleteError_nil:
  "handleDatastoreDeleteError sentinel resp None ident itemKind = resp"
  by (simp add: handleDatastoreDeleteError_def)

lemma handleDatastoreDeleteError_sentinel:
  "errors_Is e sentinel \<Longrightarrow>
   handleDatastoreDeleteError sentinel resp (Some e) ident itemKind = resp"
  by (simp add: handleDatastoreDeleteError_def)

lemma handleDatastoreDeleteError_unparsable:
  "\<not> errors_Is e sentinel \<Longrightarrow> Contains (Error e) ''unable to parse'' \<Longrightarrow>
   handleDatastoreDeleteError sentinel resp (Some e) ident itemKind =
     resp\<lparr>Diagnostics :=
       AddWarning (Diagnostics resp) (delete_warning_summary itemKind)
         (delete_warning_detail itemKind ident)\<rparr>"
  by (simp add: handleDatastoreDeleteError_def)

lemma handleDatastoreDeleteError_other:
  "\<not> errors_Is e sentinel \<Longrightarrow> \<not> Contains (Error e) ''unable to parse'' \<Longrightarrow>
   handleDatastoreDeleteError sentinel resp (Some e) ident itemKind =
     resp\<lparr>Diagnostics :=
       AddError (Diagnostics resp) (delete_error_summary itemKind)
         (delete_error_detail itemKind ident (Error e))\<rparr>"
  by (simp add: handleDatastoreDeleteError_def)

lemma errors_Is_refl: "errors_Is e e"
  by (cases e) simp_all

lemma errors_Is_wrap: "errors_Is e target \<Longrightarrow> errors_Is (WrapError s e) target"
  by simp

section \<open>The size check of the plan modifier\<close>

text \<open>
  C6. With a nil original size \<open>applySizeRequiresReplace\<close> returns the response as it
  was, whatever the current size and the flag: no diagnostic, no replacement, no plan
  value.
\<close>

theorem nil_baseline_is_noop:
  "applySizeRequiresReplace Quote resp None stateSize planOverwrite resourceKind = resp"
  by (simp add: applySizeRequiresReplace_def)

theorem nil_baseline_is_noop_witness:
  "applySizeRequiresReplace (\<lambda>s. s)
     \<lparr>Diagnostics = [], PlanValue = Int64Value 150, RequiresReplace = False\<rparr>
     None 150 True ''disk''
   = \<lparr>Diagnostics = [], PlanValue = Int64Value 150, RequiresReplace = False\<rparr>"
  by (rule nil_baseline_is_noop)

text \<open>
  C7. When the stored original size parses and either equals the current size or
  \<open>overwrite\<close> is not set, \<open>applySizeRequiresReplace\<close> returns the response as it
  was.
\<close>

theorem equal_or_opted_out_is_noop:
  assumes "ParseInt bytes = (originalStateSize, None)"
    and "stateSize = originalStateSize \<or> \<not> planOverwrite"
  shows "applySizeRequiresReplace Quote resp (Some bytes) stateSize planOverwrite resourceKind = resp"
  using assms by (auto simp: applySizeRequiresReplace_def)

theorem equal_or_opted_out_is_noop_witness:
  "ParseInt ''100'' = (100, None)
   \<and> applySizeRequiresReplace (\<lambda>s. s)
       \<lparr>Diagnostics = [], PlanValue = Int64Value 100, RequiresReplace = False\<rparr>
       (Some ''100'') 100 True ''disk''
     = \<lparr>Diagnostics = [], PlanValue = Int64Value 100, RequiresReplace = False\<rparr>
   \<and> applySizeRequiresReplace (\<lambda>s. s)
       \<lparr>Diagnostics = [], PlanValue = Int64Value 150, RequiresReplace = False\<rparr>
       (Some ''100'') 150 False ''disk''
     = \<lparr>Diagnostics = [], PlanValue = Int64Value 150, RequiresReplace = False\<rparr>"
proof -
  have p: "ParseInt ''100'' = (100, None)" by code_simp
  have a: "(100 :: int64) = 100 \<or> \<not> True" by simp
  have b: "(150 :: int64) = 100 \<or> \<not> False" by simp
  show ?thesis
    using p equal_or_opted_out_is_noop [OF p a] equal_or_opted_out_is_noop [OF p b]
    by simp
qed

text \<open>
  C1. When the stored original size parses to an integer that differs from the size in
  the datastore and \<open>overwrite\<close> is set, \<open>applySizeRequiresReplace\<close> sets
  \<open>RequiresReplace\<close>, sets the plan value to the parsed original size and adds one
  warning: the diagnostics are those of \<open>AddWarning\<close> on the response's collection,
  which is the collection with the warning at its end whenever it did not hold an equal
  diagnostic before (an empty collection, for one). The summary names the resource kind;
  the detail cites the decimal texts of both sizes and the flag \<open>overwrite=false\<close>.
  At the original size 100 and the current size 150 the detail contains \<open>100\<close> and
  \<open>150\<close>.
\<close>

theorem drift_forces_replacement:
  assumes "ParseInt bytes = (originalStateSize, None)"
    and "stateSize \<noteq> originalStateSize"
  shows "let r = applySizeRequiresReplace Quote resp (Some bytes) stateSize True resourceKind;
             w = WarningDiagnostic (size_warning_summary resourceKind)
                   (size_warning_detail originalStateSize stateSize)
         in RequiresReplace r
          \<and> PlanValue r = Int64Value originalStateSize
          \<and> Diagnostics r = AddWarning (Diagnostics resp) (Summary w) (Detail w)
          \<and> (w \<notin> set (Diagnostics resp) \<longrightarrow> Diagnostics r = Diagnostics resp @ [w])
          \<and> Contains (Summary w) resourceKind
          \<and> Contains (Detail w) (FormatInt (sint originalStateSize))
          \<and> Contains (Detail w) (FormatInt (sint stateSize))
          \<and> Contains (Detail w) ''overwrite=false''"
  unfolding Let_def applySizeRequiresReplace_drift [OF assms]
  by (simp add: AddWarning_def Append_fresh size_warning_detail_cites size_warning_summary_cites)

theorem drift_forces_replacement_witness:
  "ParseInt ''100'' = (100, None) \<and> (150 :: int64) \<noteq> 100
   \<and> (let r = applySizeRequiresReplace (\<lambda>s. s)
                \<lparr>Diagnostics = [], PlanValue = Int64Value 150, RequiresReplace = False\<rparr>
                (Some ''100'') 150 True ''disk''
      in RequiresReplace r
       \<and> PlanValue r = Int64Value 100
       \<and> Diagnostics r =
           [WarningDiagnostic ''The disk size in datastore has changed outside of terraform.''
              ''Previous size: 100 saved in state does not match current size from datastore: 150. You can disable this behaviour by using overwrite=false'']
       \<and> Contains (Detail (hd (Diagnostics r))) ''100''
       \<and> Contains (Detail (hd (Diagnostics r))) ''150'')"
proof -
  have p: "ParseInt ''100'' = (100, None)" by code_simp
  have n: "(150 :: int64) \<noteq> 100" by simp
  have s: "size_warning_summary ''disk''
             = ''The disk size in datastore has changed outside of terraform.''"
    by code_simp
  have d: "size_warning_detail 100 150
             = ''Previous size: 100 saved in state does not match current size from datastore: 150. You can disable this behaviour by using overwrite=false''"
    by code_simp
  have f: "FormatInt (sint (100 :: int64)) = ''100''" "FormatInt (sint (150 :: int64)) = ''150''"
    by code_simp+
  show ?thesis
    using p n drift_forces_replacement [OF p n, where Quote = "\<lambda>s. s"
        and resp = "\<lparr>Diagnostics = [], PlanValue = Int64Value 150, RequiresReplace = False\<rparr>"
        and resourceKind = "''disk''"]
    unfolding Let_def s d f
    by (simp add: AddError_def AddWarning_def Append_def del: Contains.simps)
qed

text \<open>
  C4. When the stored original size is not nil and \<open>strconv.ParseInt\<close> returns an error
  for it, \<open>applySizeRequiresReplace\<close> adds one error diagnostic (at the end of a
  collection that did not hold an equal one) and changes nothing else: neither
  \<open>RequiresReplace\<close> nor the plan value. The summary names the resource kind, the detail
  names the key \<open>original_state_size\<close> and contains the text of the parse error.
  And for every original size, nil or not: when the call adds a diagnostic of severity
  error, it sets neither \<open>RequiresReplace\<close> nor the plan value.
\<close>

theorem malformed_baseline_is_error:
  "(ParseInt bytes = (v, Some err) \<longrightarrow>
      (let r = applySizeRequiresReplace Quote resp (Some bytes) stateSize planOverwrite resourceKind;
           d = ErrorDiagnostic (size_error_summary resourceKind)
                 (size_error_detail (NumError_Error Quote err))
       in RequiresReplace r = RequiresReplace resp
        \<and> PlanValue r = PlanValue resp
        \<and> Diagnostics r = AddError (Diagnostics resp) (Summary d) (Detail d)
        \<and> (d \<notin> set (Diagnostics resp) \<longrightarrow> Diagnostics r = Diagnostics resp @ [d])
        \<and> Contains (Summary d) resourceKind
        \<and> Contains (Detail d) ''original_state_size''
        \<and> Contains (Detail d) (NumError_Error Quote err)))
   \<and> (x \<in> set (Diagnostics
          (applySizeRequiresReplace Quote resp baseline stateSize planOverwrite resourceKind))
        \<and> x \<notin> set (Diagnostics resp) \<and> Severity x = SeverityError \<longrightarrow>
        RequiresReplace
          (applySizeRequiresReplace Quote resp baseline stateSize planOverwrite resourceKind)
          = RequiresReplace resp
      \<and> PlanValue
          (applySizeRequiresReplace Quote resp baseline stateSize planOverwrite resourceKind)
          = PlanValue resp)"
proof (intro conjI impI)
  assume p: "ParseInt bytes = (v, Some err)"
  show "let r = applySizeRequiresReplace Quote resp (Some bytes) stateSize planOverwrite resourceKind;
           d = ErrorDiagnostic (size_error_summary resourceKind)
                 (size_error_detail (NumError_Error Quote err))
       in RequiresReplace r = RequiresReplace resp
        \<and> PlanValue r = PlanValue resp
        \<and> Diagnostics r = AddError (Diagnostics resp) (Summary d) (Detail d)
        \<and> (d \<notin> set (Diagnostics resp) \<longrightarrow> Diagnostics r = Diagnostics resp @ [d])
        \<and> Contains (Summary d) resourceKind
        \<and> Contains (Detail d) ''original_state_size''
        \<and> Contains (Detail d) (NumError_Error Quote err)"
    unfolding Let_def applySizeRequiresReplace_parse_error [OF p]
    by (simp add: AddError_def Append_fresh size_error_cites)
next
  assume a: "x \<in> set (Diagnostics
          (applySizeRequiresReplace Quote resp baseline stateSize planOverwrite resourceKind))
        \<and> x \<notin> set (Diagnostics resp) \<and> Severity x = SeverityError"
  then show "RequiresReplace
          (applySizeRequiresReplace Quote resp baseline stateSize planOverwrite resourceKind)
          = RequiresReplace resp"
    and "PlanValue
          (applySizeRequiresReplace Quote resp baseline stateSize planOverwrite resourceKind)
          = PlanValue resp"
    using new_error_keeps_plan [of x Quote resp baseline stateSize planOverwrite resourceKind]
    by simp_all
qed

theorem malformed_baseline_is_error_witness:
  "ParseInt ''12a'' = (0, Some (syntaxError ''ParseInt'' ''12a''))
   \<and> (let r = applySizeRequiresReplace (\<lambda>s. CHR 0x22 # s @ [CHR 0x22])
                \<lparr>Diagnostics = [], PlanValue = Int64Value 150, RequiresReplace = False\<rparr>
                (Some ''12a'') 150 True ''disk''
      in \<not> RequiresReplace r
       \<and> PlanValue r = Int64Value 150
       \<and> Diagnostics r =
           [ErrorDiagnostic ''Unable to convert original state disk size to int64''
              (''Unexpected error in parsing string to int64, key original_state_size. Please retry the operation or report this issue to the provider developers.''
               @ [CHR 0x0A, CHR 0x0A]
               @ ''Error: strconv.ParseInt: parsing '' @ [CHR 0x22] @ ''12a'' @ [CHR 0x22]
               @ '': invalid syntax'')])"
proof -
  have p: "ParseInt ''12a'' = (0, Some (syntaxError ''ParseInt'' ''12a''))" by code_simp
  have s: "size_error_summary ''disk'' = ''Unable to convert original state disk size to int64''"
    by code_simp
  have d: "size_error_detail
             (NumError_Error (\<lambda>s. CHR 0x22 # s @ [CHR 0x22]) (syntaxError ''ParseInt'' ''12a''))
           = ''Unexpected error in parsing string to int64, key original_state_size. Please retry the operation or report this issue to the provider developers.''
               @ [CHR 0x0A, CHR 0x0A]
               @ ''Error: strconv.ParseInt: parsing '' @ [CHR 0x22] @ ''12a'' @ [CHR 0x22]
               @ '': invalid syntax''"
    by code_simp
  show ?thesis
    using p malformed_baseline_is_error [where bytes = "''12a''" and v = 0
        and err = "syntaxError ''ParseInt'' ''12a''"
        and Quote = "\<lambda>s. CHR 0x22 # s @ [CHR 0x22]"
        and resp = "\<lparr>Diagnostics = [], PlanValue = Int64Value 150, RequiresReplace = False\<rparr>"
        and resourceKind = "''disk''" and stateSize = 150 and planOverwrite = True
        and baseline = "Some ''12a''"
        and x = "ErrorDiagnostic ''Unable to convert original state disk size to int64''
              (''Unexpected error in parsing string to int64, key original_state_size. Please retry the operation or report this issue to the provider developers.''
               @ [CHR 0x0A, CHR 0x0A]
               @ ''Error: strconv.ParseInt: parsing '' @ [CHR 0x22] @ ''12a'' @ [CHR 0x22]
               @ '': invalid syntax'')"]
    unfolding Let_def s d
    by (simp add: AddError_def AddWarning_def Append_def del: Contains.simps)
qed

text \<open>
  C9. An empty original size that is not nil is parsed: \<open>strconv.ParseInt\<close> returns a
  syntax error for the empty text, and \<open>applySizeRequiresReplace\<close> adds the error
  diagnostic and sets neither \<open>RequiresReplace\<close> nor the plan value. On a collection that
  did not hold an equal diagnostic the result differs from the result for a nil original
  size.
\<close>

theorem empty_baseline_is_parse_error:
  "let r = applySizeRequiresReplace Quote resp (Some []) stateSize planOverwrite resourceKind;
       d = ErrorDiagnostic (size_error_summary resourceKind)
             (size_error_detail (NumError_Error Quote (syntaxError ''ParseInt'' [])))
   in snd (ParseInt []) = Some (syntaxError ''ParseInt'' [])
    \<and> RequiresReplace r = RequiresReplace resp
    \<and> PlanValue r = PlanValue resp
    \<and> Diagnostics r = AddError (Diagnostics resp) (Summary d) (Detail d)
    \<and> (d \<notin> set (Diagnostics resp) \<longrightarrow>
         Diagnostics r = Diagnostics resp @ [d]
       \<and> r \<noteq> applySizeRequiresReplace Quote resp None stateSize planOverwrite resourceKind)"
  unfolding Let_def applySizeRequiresReplace_parse_error [OF ParseInt_empty]
  by (auto simp: AddError_def Append_fresh ParseInt_empty applySizeRequiresReplace_def
      dest: arg_cong [where f = Diagnostics])

theorem empty_baseline_is_parse_error_witness:
  "(let r = applySizeRequiresReplace (\<lambda>s. CHR 0x22 # s @ [CHR 0x22])
                \<lparr>Diagnostics = [], PlanValue = Int64Value 150, RequiresReplace = False\<rparr>
                (Some []) 150 True ''disk''
      in \<not> RequiresReplace r
       \<and> PlanValue r = Int64Value 150
       \<and> Diagnostics r =
           [ErrorDiagnostic ''Unable to convert original state disk size to int64''
              (''Unexpected error in parsing string to int64, key original_state_size. Please retry the operation or report this issue to the provider developers.''
               @ [CHR 0x0A, CHR 0x0A]
               @ ''Error: strconv.ParseInt: parsing '' @ [CHR 0x22, CHR 0x22]
               @ '': invalid syntax'')]
       \<and> r \<noteq> applySizeRequiresReplace (\<lambda>s. CHR 0x22 # s @ [CHR 0x22])
                \<lparr>Diagnostics = [], PlanValue = Int64Value 150, RequiresReplace = False\<rparr>
                None 150 True ''disk'')"
proof -
  have s: "size_error_summary ''disk'' = ''Unable to convert original state disk size to int64''"
    by code_simp
  have d: "size_error_detail
             (NumError_Error (\<lambda>s. CHR 0x22 # s @ [CHR 0x22]) (syntaxError ''ParseInt'' []))
           = ''Unexpected error in parsing string to int64, key original_state_size. Please retry the operation or report this issue to the provider developers.''
               @ [CHR 0x0A, CHR 0x0A]
               @ ''Error: strconv.ParseInt: parsing '' @ [CHR 0x22, CHR 0x22]
               @ '': invalid syntax''"
    by code_simp
  show ?thesis
    using empty_baseline_is_parse_error [where Quote = "\<lambda>s. CHR 0x22 # s @ [CHR 0x22]"
        and resp = "\<lparr>Diagnostics = [], PlanValue = Int64Value 150, RequiresReplace = False\<rparr>"
        and resourceKind = "''disk''" and stateSize = 150 and planOverwrite = True]
    unfolding Let_def s d
    by (simp add: AddError_def AddWarning_def Append_def del: Contains.simps)
qed




section \<open>Reading\<close>

text \<open>
  C2. \<open>handleReadResult\<close> on a nil error returns \<open>False\<close> and leaves the response as it
  is. On an error whose text contains \<open>failed to authenticate\<close> it returns \<open>True\<close>,
  keeps the state and adds the error diagnostic with the summary
  \<open>Failed to authenticate\<close> and the error text as detail. On any other error it returns
  \<open>True\<close>, removes the resource from the state and adds the warning whose summary is the
  caller's message and whose detail is the error text. In both cases the diagnostic is
  added at the end of a collection that did not hold an equal one.
\<close>

theorem handleReadResult_classifies:
  "handleReadResult resp None notExistMessage = (False, resp)
   \<and> (Contains (Error e) ''failed to authenticate'' \<longrightarrow>
        fst (handleReadResult resp (Some e) notExistMessage)
      \<and> State (snd (handleReadResult resp (Some e) notExistMessage)) = State resp
      \<and> Diagnostics (snd (handleReadResult resp (Some e) notExistMessage))
          = AddError (Diagnostics resp) ''Failed to authenticate'' (Error e)
      \<and> (ErrorDiagnostic ''Failed to authenticate'' (Error e) \<notin> set (Diagnostics resp) \<longrightarrow>
           Diagnostics (snd (handleReadResult resp (Some e) notExistMessage))
             = Diagnostics resp @ [ErrorDiagnostic ''Failed to authenticate'' (Error e)]))
   \<and> (\<not> Contains (Error e) ''failed to authenticate'' \<longrightarrow>
        fst (handleReadResult resp (Some e) notExistMessage)
      \<and> State (snd (handleReadResult resp (Some e) notExistMessage)) = None
      \<and> Diagnostics (snd (handleReadResult resp (Some e) notExistMessage))
          = AddWarning (Diagnostics resp) notExistMessage (Error e)
      \<and> (WarningDiagnostic notExistMessage (Error e) \<notin> set (Diagnostics resp) \<longrightarrow>
           Diagnostics (snd (handleReadResult resp (Some e) notExistMessage))
             = Diagnostics resp @ [WarningDiagnostic notExistMessage (Error e)]))"
  by (simp add: handleReadResult_nil handleReadResult_auth handleReadResult_other
      AddError_def AddWarning_def Append_fresh)

theorem handleReadResult_classifies_witness:
  "Contains (Error (ErrorString ''api error: failed to authenticate user'')) ''failed to authenticate''
   \<and> \<not> Contains (Error (ErrorString ''object xyz not found'')) ''failed to authenticate''
   \<and> handleReadResult \<lparr>Diagnostics = [], State = Some ''vm-100-disk-0''\<rparr> None ''msg''
       = (False, \<lparr>Diagnostics = [], State = Some ''vm-100-disk-0''\<rparr>)
   \<and> handleReadResult \<lparr>Diagnostics = [], State = Some ''vm-100-disk-0''\<rparr>
         (Some (ErrorString ''api error: failed to authenticate user'')) ''msg''
       = (True, \<lparr>Diagnostics =
                    [ErrorDiagnostic ''Failed to authenticate''
                       ''api error: failed to authenticate user''],
                 State = Some ''vm-100-disk-0''\<rparr>)
   \<and> handleReadResult \<lparr>Diagnostics = [], State = Some ''vm-100-disk-0''\<rparr>
         (Some (ErrorString ''object xyz not found'')) ''msg''
       = (True, \<lparr>Diagnostics = [WarningDiagnostic ''msg'' ''object xyz not found''],
                 State = None\<rparr>)"
proof -
  let ?resp = "\<lparr>Diagnostics = [], State = Some ''vm-100-disk-0''\<rparr>"
  have a: "Contains (Error (ErrorString ''api error: failed to authenticate user''))
             ''failed to authenticate''"
    by code_simp
  have b: "\<not> Contains (Error (ErrorString ''object xyz not found'')) ''failed to authenticate''"
    by code_simp
  have eq: "\<And>(p :: bool \<times> string ReadResponse) h ds st.
              fst p = h \<Longrightarrow> Diagnostics (snd p) = ds \<Longrightarrow> State (snd p) = st \<Longrightarrow>
              p = (h, \<lparr>Diagnostics = ds, State = st\<rparr>)"
    by (auto simp: prod_eq_iff)
  note auth = handleReadResult_classifies
    [where resp = ?resp and e = "ErrorString ''api error: failed to authenticate user''"
       and notExistMessage = "''msg''"]
  note gone = handleReadResult_classifies
    [where resp = ?resp and e = "ErrorString ''object xyz not found''"
       and notExistMessage = "''msg''"]
  have 1: "handleReadResult ?resp None ''msg'' = (False, ?resp)"
    using auth by (rule conjunct1)
  have 2: "handleReadResult ?resp (Some (ErrorString ''api error: failed to authenticate user'')) ''msg''
       = (True, \<lparr>Diagnostics =
                    [ErrorDiagnostic ''Failed to authenticate''
                       ''api error: failed to authenticate user''],
                 State = Some ''vm-100-disk-0''\<rparr>)"
    using auth a by (intro eq) (simp_all add: AddError_def AddWarning_def Append_def del: Contains.simps)
  have 3: "handleReadResult ?resp (Some (ErrorString ''object xyz not found'')) ''msg''
       = (True, \<lparr>Diagnostics = [WarningDiagnostic ''msg'' ''object xyz not found''],
                 State = None\<rparr>)"
    using gone b by (intro eq) (simp_all add: AddError_def AddWarning_def Append_def del: Contains.simps)
  show ?thesis using a b 1 2 3 by blast
qed

section \<open>Deleting\<close>

text \<open>
  C3. \<open>handleDatastoreDeleteError\<close> leaves the response as it is on a nil error and on
  an error that \<open>errors.Is\<close> the sentinel. Otherwise an error whose text contains
  \<open>unable to parse\<close> adds one warning, whose summary and detail name the item kind and
  whose detail names the id; any other error adds one error diagnostic, whose summary names
  the item kind and whose detail names the item kind, the id and the error text. Nothing
  but the diagnostics changes, and the diagnostic is added at the end of a collection that
  did not hold an equal one.
\<close>

theorem handleDatastoreDeleteError_classifies:
  "handleDatastoreDeleteError sentinel resp None ident itemKind = resp
   \<and> (errors_Is e sentinel \<longrightarrow>
        handleDatastoreDeleteError sentinel resp (Some e) ident itemKind = resp)
   \<and> (\<not> errors_Is e sentinel \<and> Contains (Error e) ''unable to parse'' \<longrightarrow>
        (let w = WarningDiagnostic (delete_warning_summary itemKind)
                   (delete_warning_detail itemKind ident)
         in handleDatastoreDeleteError sentinel resp (Some e) ident itemKind
              = resp\<lparr>Diagnostics := AddWarning (Diagnostics resp) (Summary w) (Detail w)\<rparr>
          \<and> (w \<notin> set (Diagnostics resp) \<longrightarrow>
               Diagnostics (handleDatastoreDeleteError sentinel resp (Some e) ident itemKind)
                 = Diagnostics resp @ [w])
          \<and> Contains (Summary w) itemKind
          \<and> Contains (Detail w) itemKind
          \<and> Contains (Detail w) ident))
   \<and> (\<not> errors_Is e sentinel \<and> \<not> Contains (Error e) ''unable to parse'' \<longrightarrow>
        (let d = ErrorDiagnostic (delete_error_summary itemKind)
                   (delete_error_detail itemKind ident (Error e))
         in handleDatastoreDeleteError sentinel resp (Some e) ident itemKind
              = resp\<lparr>Diagnostics := AddError (Diagnostics resp) (Summary d) (Detail d)\<rparr>
          \<and> (d \<notin> set (Diagnostics resp) \<longrightarrow>
               Diagnostics (handleDatastoreDeleteError sentinel resp (Some e) ident itemKind)
                 = Diagnostics resp @ [d])
          \<and> Contains (Summary d) itemKind
          \<and> Contains (Detail d) itemKind
          \<and> Contains (Detail d) ident
          \<and> Contains (Detail d) (Error e)))"
proof (intro conjI impI)
  show "handleDatastoreDeleteError sentinel resp None ident itemKind = resp"
    by (rule handleDatastoreDeleteError_nil)
next
  assume "errors_Is e sentinel"
  then show "handleDatastoreDeleteError sentinel resp (Some e) ident itemKind = resp"
    by (rule handleDatastoreDeleteError_sentinel)
next
  assume a: "\<not> errors_Is e sentinel \<and> Contains (Error e) ''unable to parse''"
  then have eq: "handleDatastoreDeleteError sentinel resp (Some e) ident itemKind =
     resp\<lparr>Diagnostics :=
       AddWarning (Diagnostics resp) (delete_warning_summary itemKind)
         (delete_warning_detail itemKind ident)\<rparr>"
    by (simp add: handleDatastoreDeleteError_unparsable)
  show "let w = WarningDiagnostic (delete_warning_summary itemKind)
                   (delete_warning_detail itemKind ident)
         in handleDatastoreDeleteError sentinel resp (Some e) ident itemKind
              = resp\<lparr>Diagnostics := AddWarning (Diagnostics resp) (Summary w) (Detail w)\<rparr>
          \<and> (w \<notin> set (Diagnostics resp) \<longrightarrow>
               Diagnostics (handleDatastoreDeleteError sentinel resp (Some e) ident itemKind)
                 = Diagnostics resp @ [w])
          \<and> Contains (Summary w) itemKind
          \<and> Contains (Detail w) itemKind
          \<and> Contains (Detail w) ident"
    unfolding Let_def eq
    by (simp add: AddWarning_def Append_fresh delete_warning_cites)
next
  assume a: "\<not> errors_Is e sentinel \<and> \<not> Contains (Error e) ''unable to parse''"
  then have eq: "handleDatastoreDeleteError sentinel resp (Some e) ident itemKind =
     resp\<lparr>Diagnostics :=
       AddError (Diagnostics resp) (delete_error_summary itemKind)
         (delete_error_detail itemKind ident (Error e))\<rparr>"
    by (simp add: handleDatastoreDeleteError_other)
  show "let d = ErrorDiagnostic (delete_error_summary itemKind)
                   (delete_error_detail itemKind ident (Error e))
         in handleDatastoreDeleteError sentinel resp (Some e) ident itemKind
              = resp\<lparr>Diagnostics := AddError (Diagnostics resp) (Summary d) (Detail d)\<rparr>
          \<and> (d \<notin> set (Diagnostics resp) \<longrightarrow>
               Diagnostics (handleDatastoreDeleteError sentinel resp (Some e) ident itemKind)
                 = Diagnostics resp @ [d])
          \<and> Contains (Summary d) itemKind
          \<and> Contains (Detail d) itemKind
          \<and> Contains (Detail d) ident
          \<and> Contains (Detail d) (Error e)"
    unfolding Let_def eq
    by (simp add: AddError_def Append_fresh delete_error_cites)
qed

theorem handleDatastoreDeleteError_classifies_witness:
  "(\<not> errors_Is (ErrorString ''unable to parse volume id'')
         (ApiError ''the requested resource does not exist'')
     \<and> Contains (Error (ErrorString ''unable to parse volume id'')) ''unable to parse'')
   \<and> (\<not> errors_Is (ErrorString ''connection refused'')
         (ApiError ''the requested resource does not exist'')
     \<and> \<not> Contains (Error (ErrorString ''connection refused'')) ''unable to parse'')
   \<and> errors_Is (ApiError ''the requested resource does not exist'')
        (ApiError ''the requested resource does not exist'')
   \<and> handleDatastoreDeleteError (ApiError ''the requested resource does not exist'')
        \<lparr>Diagnostics = [], DeleteState = Some ''x''\<rparr> None ''x'' ''disk''
       = \<lparr>Diagnostics = [], DeleteState = Some ''x''\<rparr>
   \<and> handleDatastoreDeleteError (ApiError ''the requested resource does not exist'')
        \<lparr>Diagnostics = [], DeleteState = Some ''x''\<rparr>
        (Some (ApiError ''the requested resource does not exist'')) ''x'' ''disk''
       = \<lparr>Diagnostics = [], DeleteState = Some ''x''\<rparr>
   \<and> Diagnostics (handleDatastoreDeleteError (ApiError ''the requested resource does not exist'')
        \<lparr>Diagnostics = [], DeleteState = Some ''x''\<rparr>
        (Some (ErrorString ''unable to parse volume id'')) ''x'' ''disk'')
       = [WarningDiagnostic ''Datastore disk does not exist''
            (''Could not delete datastore disk '' @ [CHR 0x27] @ ''x'' @ [CHR 0x27] @
             '', it does not exist or has been deleted outside of Terraform.'')]
   \<and> Diagnostics (handleDatastoreDeleteError (ApiError ''the requested resource does not exist'')
        \<lparr>Diagnostics = [], DeleteState = Some ''x''\<rparr>
        (Some (ErrorString ''connection refused'')) ''x'' ''disk'')
       = [ErrorDiagnostic ''Error deleting datastore disk''
            (''Could not delete datastore disk '' @ [CHR 0x27] @ ''x'' @ [CHR 0x27] @
             '', unexpected error: connection refused'')]"
proof -
  let ?sentinel = "ApiError ''the requested resource does not exist''"
  let ?resp = "\<lparr>Diagnostics = [], DeleteState = Some ''x''\<rparr>"
  have a: "\<not> errors_Is (ErrorString ''unable to parse volume id'') ?sentinel
           \<and> Contains (Error (ErrorString ''unable to parse volume id'')) ''unable to parse''"
    by code_simp
  have b: "\<not> errors_Is (ErrorString ''connection refused'') ?sentinel
           \<and> \<not> Contains (Error (ErrorString ''connection refused'')) ''unable to parse''"
    by code_simp
  have c: "errors_Is ?sentinel ?sentinel"
    by simp
  have ws: "delete_warning_summary ''disk'' = ''Datastore disk does not exist''"
    by code_simp
  have wd: "delete_warning_detail ''disk'' ''x''
           = ''Could not delete datastore disk '' @ [CHR 0x27] @ ''x'' @ [CHR 0x27] @
             '', it does not exist or has been deleted outside of Terraform.''"
    by code_simp
  have es: "delete_error_summary ''disk'' = ''Error deleting datastore disk''"
    by code_simp
  have ed: "delete_error_detail ''disk'' ''x'' (Error (ErrorString ''connection refused''))
           = ''Could not delete datastore disk '' @ [CHR 0x27] @ ''x'' @ [CHR 0x27] @
             '', unexpected error: connection refused''"
    by code_simp
  note absent = handleDatastoreDeleteError_classifies
    [where sentinel = ?sentinel and resp = ?resp and e = ?sentinel
       and ident = "''x''" and itemKind = "''disk''"]
  note unparsable = handleDatastoreDeleteError_classifies
    [where sentinel = ?sentinel and resp = ?resp and e = "ErrorString ''unable to parse volume id''"
       and ident = "''x''" and itemKind = "''disk''", unfolded Let_def ws wd]
  note other = handleDatastoreDeleteError_classifies
    [where sentinel = ?sentinel and resp = ?resp and e = "ErrorString ''connection refused''"
       and ident = "''x''" and itemKind = "''disk''", unfolded Let_def es ed]
  have 1: "handleDatastoreDeleteError ?sentinel ?resp None ''x'' ''disk'' = ?resp"
    using absent by (rule conjunct1)
  have 2: "handleDatastoreDeleteError ?sentinel ?resp (Some ?sentinel) ''x'' ''disk'' = ?resp"
    using absent c by blast
  have 3: "Diagnostics (handleDatastoreDeleteError ?sentinel ?resp
             (Some (ErrorString ''unable to parse volume id'')) ''x'' ''disk'')
       = [WarningDiagnostic ''Datastore disk does not exist''
            (''Could not delete datastore disk '' @ [CHR 0x27] @ ''x'' @ [CHR 0x27] @
             '', it does not exist or has been deleted outside of Terraform.'')]"
    using unparsable a by (simp add: AddError_def AddWarning_def Append_def del: Contains.simps)
  have 4: "Diagnostics (handleDatastoreDeleteError ?sentinel ?resp
             (Some (ErrorString ''connection refused'')) ''x'' ''disk'')
       = [ErrorDiagnostic ''Error deleting datastore disk''
            (''Could not delete datastore disk '' @ [CHR 0x27] @ ''x'' @ [CHR 0x27] @
             '', unexpected error: connection refused'')]"
    using other b by (simp add: AddError_def AddWarning_def Append_def del: Contains.simps)
  show ?thesis using a b c 1 2 3 4 by blast
qed

text \<open>
  C10. An error that \<open>errors.Is\<close> the sentinel, and any error that wraps such an error
  with any text, leaves the response of \<open>handleDatastoreDeleteError\<close> as it was, also
  when the text contains \<open>unable to parse\<close>.
\<close>

theorem sentinel_takes_precedence:
  assumes "errors_Is e sentinel"
  shows "handleDatastoreDeleteError sentinel resp (Some e) ident itemKind = resp
       \<and> handleDatastoreDeleteError sentinel resp (Some (WrapError s e)) ident itemKind = resp"
  using assms by (simp add: handleDatastoreDeleteError_def)

theorem sentinel_takes_precedence_witness:
  "errors_Is (ApiError ''the requested resource does not exist'')
     (ApiError ''the requested resource does not exist'')
   \<and> Contains (Error (WrapError ''unable to parse response: the requested resource does not exist''
                        (ApiError ''the requested resource does not exist'')))
        ''unable to parse''
   \<and> handleDatastoreDeleteError (ApiError ''the requested resource does not exist'')
        \<lparr>Diagnostics = [], DeleteState = Some ''x''\<rparr>
        (Some (WrapError ''unable to parse response: the requested resource does not exist''
                 (ApiError ''the requested resource does not exist''))) ''x'' ''disk''
       = \<lparr>Diagnostics = [], DeleteState = Some ''x''\<rparr>"
proof -
  have a: "errors_Is (ApiError ''the requested resource does not exist'')
     (ApiError ''the requested resource does not exist'')"
    by simp
  have b: "Contains (Error (WrapError ''unable to parse response: the requested resource does not exist''
                        (ApiError ''the requested resource does not exist'')))
        ''unable to parse''"
    by code_simp
  show ?thesis
    using a b sentinel_takes_precedence [OF a,
        where resp = "\<lparr>Diagnostics = [], DeleteState = Some ''x''\<rparr>"
          and s = "''unable to parse response: the requested resource does not exist''"
          and ident = "''x''" and itemKind = "''disk''"]
    by blast
qed

end
